theory Spec2Isabelle
  imports Main "HOL-Library.Word"
begin

section \<open>The lead-sourcing screen: data\<close>

text \<open>
  The development follows \<^verbatim>\<open>app/(tabs)/lead-sourcing.tsx\<close>. The component
  \<^verbatim>\<open>LeadSourcingScreen\<close> reads the lead collection and the gateway status from two
  stores, keeps the search query and the set of in-flight lead identifiers as local
  state, and talks to the outside through \<^verbatim>\<open>Alert.alert\<close>, \<^verbatim>\<open>searchLeads\<close>
  and \<^verbatim>\<open>syncLeadToHubSpot\<close>. Those three effects are recorded, in the order they
  happen, in the \<open>events\<close> field of the state.
\<close>

subsection \<open>Strings of the search box\<close>

text \<open>
  A JavaScript string is a sequence of 16-bit code units. \<^verbatim>\<open>String.prototype.trim\<close>
  removes, at both ends, the code units that ECMAScript calls WhiteSpace or
  LineTerminator: TAB, VT, FF, the byte order mark, the space separators of Unicode, LF,
  CR, LS and PS. Identifiers, titles and messages are only compared and concatenated,
  so they are plain \<open>string\<close>s.
\<close>

type_synonym jsstring = "16 word list"

definition isWhiteSpace :: "16 word \<Rightarrow> bool" where
  "isWhiteSpace c =
     (c = 0x0009 \<or> c = 0x000A \<or> c = 0x000B \<or> c = 0x000C \<or> c = 0x000D \<or>
      c = 0x0020 \<or> c = 0x00A0 \<or> c = 0x1680 \<or> (0x2000 \<le> c \<and> c \<le> 0x200A) \<or>
      c = 0x2028 \<or> c = 0x2029 \<or> c = 0x202F \<or> c = 0x205F \<or> c = 0x3000 \<or>
      c = 0xFEFF)"

definition trim :: "jsstring \<Rightarrow> jsstring" where
  "trim q = rev (dropWhile isWhiteSpace (rev (dropWhile isWhiteSpace q)))"

text \<open>Decimal rendering of a length, as a template literal does it.\<close>

fun toString :: "nat \<Rightarrow> string" where
  "toString n =
     (if n < 10 then [''0123456789'' ! n]
      else toString (n div 10) @ [''0123456789'' ! (n mod 10)])"

declare toString.simps [simp del]

subsection \<open>Leads, effects and the state of the screen\<close>

record lead =
  lead_id :: string
  syncedToHubSpot :: bool

text \<open>
  What \<^verbatim>\<open>await syncLeadToHubSpot(leadId)\<close> can give back: a resolved boolean, a
  thrown \<^verbatim>\<open>Error\<close> with its message, or any other thrown value.
\<close>

datatype gateway_outcome =
    Resolved bool
  | ThrewError string
  | ThrewOther

datatype event =
    Alert string string
  | AlertButtons string string "string list"
  | SearchLeads jsstring
  | SyncLeadToHubSpot string

datatype button = Cancel | SyncAll

datatype icon = ActivityIndicator | CheckCircle | Zap

record screen =
  leads :: "lead list"
  isConfigured :: bool
  searchQuery :: jsstring
  syncingLeads :: "string set"
  events :: "event list"

text \<open>
  The two store functions are not part of this file of the repository, so they are
  parameters: \<open>searchLeads\<close> acts on the lead collection, and the gateway gives an
  outcome and the lead collection it leaves behind. Neither can reach
  \<open>syncingLeads\<close>, which is local state of the component.
\<close>

type_synonym discovery = "jsstring \<Rightarrow> lead list \<Rightarrow> lead list"
type_synonym gateway = "string \<Rightarrow> lead list \<Rightarrow> gateway_outcome \<times> lead list"

section \<open>The handlers\<close>

definition alert :: "string \<Rightarrow> string \<Rightarrow> screen \<Rightarrow> screen" where
  "alert title message s = s\<lparr>events := events s @ [Alert title message]\<rparr>"

definition notConfiguredMessage :: string where
  "notConfiguredMessage = ''HubSpot is not configured. Please configure it in Settings.''"

definition handleSearch :: "discovery \<Rightarrow> screen \<Rightarrow> screen" where
  "handleSearch searchLeads s =
     (if trim (searchQuery s) = [] then alert ''Error'' ''Please enter a search query'' s
      else s\<lparr>events := events s @ [SearchLeads (searchQuery s)],
             leads := searchLeads (searchQuery s) (leads s)\<rparr>)"

text \<open>
  \<^verbatim>\<open>handleSyncLead\<close> is asynchronous: it runs up to the call of the gateway,
  is suspended at the \<^verbatim>\<open>await\<close>, and is resumed with the outcome. The two halves
  are separate functions, so that overlapping calls can be interleaved;
  \<open>handleSyncLead\<close> is the call that runs without anything in between. The updates of
  \<open>syncingLeads\<close> are functional updates of the latest set, so they are atomic.
\<close>

definition handleSyncLead_enter :: "string \<Rightarrow> screen \<Rightarrow> screen \<times> bool" where
  "handleSyncLead_enter leadId s =
     (if \<not> isConfigured s then (alert ''Error'' notConfiguredMessage s, False)
      else (s\<lparr>syncingLeads := insert leadId (syncingLeads s),
              events := events s @ [SyncLeadToHubSpot leadId]\<rparr>, True))"

definition resultNotice :: "gateway_outcome \<Rightarrow> event" where
  "resultNotice out =
     (case out of
        Resolved success \<Rightarrow>
          (if success then Alert ''Success'' ''Lead synced to HubSpot successfully''
           else Alert ''Error'' ''Failed to sync lead to HubSpot'')
      | ThrewError message \<Rightarrow> Alert ''Error'' (''Sync failed: '' @ message)
      | ThrewOther \<Rightarrow> Alert ''Error'' (''Sync failed: '' @ ''Unknown error occurred''))"

definition handleSyncLead_resume :: "string \<Rightarrow> gateway_outcome \<Rightarrow> screen \<Rightarrow> screen" where
  "handleSyncLead_resume leadId out s =
     s\<lparr>events := events s @ [resultNotice out],
       syncingLeads := syncingLeads s - {leadId}\<rparr>"

definition handleSyncLead :: "gateway \<Rightarrow> string \<Rightarrow> screen \<Rightarrow> screen" where
  "handleSyncLead syncLeadToHubSpot leadId s =
     (case handleSyncLead_enter leadId s of
        (s1, False) \<Rightarrow> s1
      | (s1, True) \<Rightarrow>
          (case syncLeadToHubSpot leadId (leads s1) of
             (out, ls) \<Rightarrow> handleSyncLead_resume leadId out (s1\<lparr>leads := ls\<rparr>)))"

text \<open>
  \<^verbatim>\<open>handleSyncAllLeads\<close> checks its two preconditions, shows a dialog with the
  buttons Cancel and Sync All, and returns. The loop over the leads is the
  \<^verbatim>\<open>onPress\<close> callback of the second button; it runs over the lead list captured
  when the dialog was shown, which the handler returns here as the pending batch.
\<close>

definition confirmMessage :: "lead list \<Rightarrow> string" where
  "confirmMessage ls = ''This will sync '' @ toString (length ls) @ '' leads to HubSpot. Continue?''"

definition handleSyncAllLeads :: "screen \<Rightarrow> screen \<times> lead list option" where
  "handleSyncAllLeads s =
     (if \<not> isConfigured s then (alert ''Error'' notConfiguredMessage s, None)
      else if length (leads s) = 0 then (alert ''Error'' ''No leads to sync'' s, None)
      else (s\<lparr>events := events s @
                 [AlertButtons ''Sync All Leads'' (confirmMessage (leads s))
                    [''Cancel'', ''Sync All'']]\<rparr>,
            Some (leads s)))"

fun syncAllOnPress :: "gateway \<Rightarrow> lead list \<Rightarrow> screen \<Rightarrow> screen" where
  "syncAllOnPress syncLeadToHubSpot [] s = s"
| "syncAllOnPress syncLeadToHubSpot (l # ls) s =
     syncAllOnPress syncLeadToHubSpot ls (handleSyncLead syncLeadToHubSpot (lead_id l) s)"

definition pressButton :: "gateway \<Rightarrow> button \<Rightarrow> lead list \<Rightarrow> screen \<Rightarrow> screen" where
  "pressButton syncLeadToHubSpot b batch s =
     (case b of Cancel \<Rightarrow> s | SyncAll \<Rightarrow> syncAllOnPress syncLeadToHubSpot batch s)"

text \<open>The whole bulk action: the handler, then the button the user presses.\<close>

definition syncAllFlow :: "gateway \<Rightarrow> button \<Rightarrow> screen \<Rightarrow> screen" where
  "syncAllFlow syncLeadToHubSpot b s =
     (case handleSyncAllLeads s of
        (s1, None) \<Rightarrow> s1
      | (s1, Some batch) \<Rightarrow> pressButton syncLeadToHubSpot b batch s1)"

subsection \<open>What the screen renders\<close>

definition getSyncStatusIcon :: "screen \<Rightarrow> string \<Rightarrow> icon" where
  "getSyncStatusIcon s leadId =
     (let lead = find (\<lambda>l. lead_id l = leadId) (leads s) in
      if leadId \<in> syncingLeads s then ActivityIndicator
      else if (case lead of None \<Rightarrow> False | Some l \<Rightarrow> syncedToHubSpot l) then CheckCircle
      else Zap)"



subsection \<open>The gateway of the specification\<close>

text \<open>
  Modelled from the spec: \<^verbatim>\<open>setSynced\<close> of the Lead Store, which is not under
  the sources: it sets \<open>syncedToHubSpot\<close> for the lead with that identifier if it is
  still in the collection, and does nothing otherwise.
\<close>

definition setSynced :: "string \<Rightarrow> lead list \<Rightarrow> lead list" where
  "setSynced leadId ls =
     map (\<lambda>l. if lead_id l = leadId then l\<lparr>syncedToHubSpot := True\<rparr> else l) ls"

text \<open>
  Modelled from the spec: \<^verbatim>\<open>syncLeadToHubSpot\<close> of the HubSpot store, which is
  not under the sources: one external write per call, whose outcome for each lead is
  given by \<open>write\<close>; on success the lead is marked by \<open>setSynced\<close>, on failure the
  lead collection is left as it is.
\<close>

definition syncLeadToHubSpot_spec :: "(string \<Rightarrow> gateway_outcome) \<Rightarrow> gateway" where
  "syncLeadToHubSpot_spec write leadId ls =
     (if write leadId = Resolved True then (Resolved True, setSynced leadId ls)
      else (write leadId, ls))"

text \<open>The gateway calls and the notices among the recorded effects.\<close>

fun gatewayCalls :: "event list \<Rightarrow> string list" where
  "gatewayCalls [] = []"
| "gatewayCalls (SyncLeadToHubSpot leadId # es) = leadId # gatewayCalls es"
| "gatewayCalls (e # es) = gatewayCalls es"

fun notices :: "event list \<Rightarrow> event list" where
  "notices [] = []"
| "notices (Alert title message # es) = Alert title message # notices es"
| "notices (e # es) = notices es"

subsection \<open>Overlapping syncs\<close>





subsection \<open>Concrete screens\<close>

text \<open>
  The screen after a search that returned the leads \<open>L1\<close>, \<open>L2\<close> and \<open>L3\<close>, with
  the gateway configured and nothing in flight; a write that fails on \<open>L2\<close> only; a
  gateway that gives the outcome of a write and leaves the lead collection alone; the
  same screen while a sync of \<open>L1\<close> is suspended at the gateway; and a screen with no
  leads and no configured gateway.
\<close>

definition threeLeads :: screen where
  "threeLeads =
     \<lparr>leads = [\<lparr>lead_id = ''L1'', syncedToHubSpot = False\<rparr>,
               \<lparr>lead_id = ''L2'', syncedToHubSpot = False\<rparr>,
               \<lparr>lead_id = ''L3'', syncedToHubSpot = False\<rparr>],
      isConfigured = True,
      searchQuery = map of_char ''Oil and Gas Oklahoma Kansas'',
      syncingLeads = {},
      events = []\<rparr>"

definition failOnL2 :: "string \<Rightarrow> gateway_outcome" where
  "failOnL2 leadId = (if leadId = ''L2'' then Resolved False else Resolved True)"

definition outcomeOnly :: "(string \<Rightarrow> gateway_outcome) \<Rightarrow> gateway" where
  "outcomeOnly write leadId ls = (write leadId, ls)"

definition inFlightL1 :: screen where
  "inFlightL1 = fst (handleSyncLead_enter ''L1'' threeLeads)"

definition emptyUnconfigured :: screen where
  "emptyUnconfigured =
     \<lparr>leads = [], isConfigured = False, searchQuery = [0x0020, 0x0009],
      syncingLeads = {}, events = []\<rparr>"

section \<open>Properties\<close>

subsection \<open>Auxiliary facts\<close>

lemma gatewayCalls_append: "gatewayCalls (xs @ ys) = gatewayCalls xs @ gatewayCalls ys"
  by (induction xs rule: gatewayCalls.induct) simp_all

lemma notices_append: "notices (xs @ ys) = notices xs @ notices ys"
  by (induction xs rule: notices.induct) simp_all

lemma gatewayCalls_resultNotice: "gatewayCalls [resultNotice out] = []"
  by (simp add: resultNotice_def split: gateway_outcome.split)

lemma notices_resultNotice: "notices [resultNotice out] = [resultNotice out]"
  by (simp add: resultNotice_def split: gateway_outcome.split)

text \<open>A call of \<open>handleSyncLead\<close> that nothing interrupts, in one equation.\<close>

lemma handleSyncLead_configured:
  assumes "isConfigured s"
  shows "handleSyncLead gw leadId s =
     s\<lparr>leads := snd (gw leadId (leads s)),
       events := events s @ [SyncLeadToHubSpot leadId, resultNotice (fst (gw leadId (leads s)))],
       syncingLeads := syncingLeads s - {leadId}\<rparr>"
  using assms
  by (simp add: handleSyncLead_def handleSyncLead_enter_def handleSyncLead_resume_def
      split: prod.split)

lemma handleSyncLead_not_configured:
  assumes "\<not> isConfigured s"
  shows "handleSyncLead gw leadId s = alert ''Error'' notConfiguredMessage s"
  using assms by (simp add: handleSyncLead_def handleSyncLead_enter_def)

lemma handleSyncAllLeads_prompt:
  assumes "isConfigured s" and "leads s \<noteq> []"
  shows "handleSyncAllLeads s =
     (s\<lparr>events := events s @
          [AlertButtons ''Sync All Leads'' (confirmMessage (leads s)) [''Cancel'', ''Sync All'']]\<rparr>,
      Some (leads s))"
  using assms by (simp add: handleSyncAllLeads_def)


lemma syncAllOnPress_gatewayCalls:
  assumes "isConfigured s"
  shows "gatewayCalls (events (syncAllOnPress gw batch s)) =
     gatewayCalls (events s) @ map lead_id batch"
  using assms
proof (induction batch arbitrary: s)
  case Nil
  show ?case by simp
next
  case (Cons l ls)
  have c1: "isConfigured (handleSyncLead gw (lead_id l) s)"
    using Cons.prems by (simp add: handleSyncLead_configured)
  show ?case
    using Cons.IH [OF c1] Cons.prems
    by (simp add: handleSyncLead_configured gatewayCalls_append gatewayCalls_resultNotice)
qed

lemma syncAllOnPress_notices:
  assumes "isConfigured s" and "\<And>leadId ls. fst (gw leadId ls) = write leadId"
  shows "notices (events (syncAllOnPress gw batch s)) =
     notices (events s) @ map (\<lambda>l. resultNotice (write (lead_id l))) batch"
  using assms(1)
proof (induction batch arbitrary: s)
  case Nil
  show ?case by simp
next
  case (Cons l ls)
  have c1: "isConfigured (handleSyncLead gw (lead_id l) s)"
    using Cons.prems by (simp add: handleSyncLead_configured)
  show ?case
    using Cons.IH [OF c1] Cons.prems assms(2)
    by (simp add: handleSyncLead_configured notices_append notices_resultNotice)
qed

lemma syncAllOnPress_spec_leads:
  assumes "isConfigured s"
  shows "leads (syncAllOnPress (syncLeadToHubSpot_spec write) batch s) =
     map (\<lambda>l. if lead_id l \<in> lead_id ` set batch \<and> write (lead_id l) = Resolved True
               then l\<lparr>syncedToHubSpot := True\<rparr> else l) (leads s)"
  using assms
proof (induction batch arbitrary: s)
  case Nil
  show ?case by (simp add: map_idI)
next
  case (Cons b bs)
  let ?gw = "syncLeadToHubSpot_spec write"
  let ?s1 = "handleSyncLead ?gw (lead_id b) s"
  have c1: "isConfigured ?s1"
    using Cons.prems by (simp add: handleSyncLead_configured)
  have l1: "leads ?s1 =
      (if write (lead_id b) = Resolved True then setSynced (lead_id b) (leads s) else leads s)"
    using Cons.prems by (simp add: handleSyncLead_configured syncLeadToHubSpot_spec_def)
  show ?case
  proof (cases "write (lead_id b) = Resolved True")
    case True
    have "leads (syncAllOnPress ?gw (b # bs) s) =
       map (\<lambda>l. if lead_id l \<in> lead_id ` set bs \<and> write (lead_id l) = Resolved True
               then l\<lparr>syncedToHubSpot := True\<rparr> else l) (setSynced (lead_id b) (leads s))"
      using Cons.IH [OF c1] l1 True by simp
    also have "\<dots> =
       map (\<lambda>l. if lead_id l \<in> lead_id ` set (b # bs) \<and> write (lead_id l) = Resolved True
               then l\<lparr>syncedToHubSpot := True\<rparr> else l) (leads s)"
      using True by (auto simp add: setSynced_def)
    finally show ?thesis .
  next
    case False
    have "leads (syncAllOnPress ?gw (b # bs) s) =
       map (\<lambda>l. if lead_id l \<in> lead_id ` set bs \<and> write (lead_id l) = Resolved True
               then l\<lparr>syncedToHubSpot := True\<rparr> else l) (leads s)"
      using Cons.IH [OF c1] l1 False by simp
    also have "\<dots> =
       map (\<lambda>l. if lead_id l \<in> lead_id ` set (b # bs) \<and> write (lead_id l) = Resolved True
               then l\<lparr>syncedToHubSpot := True\<rparr> else l) (leads s)"
      using False by auto
    finally show ?thesis .
  qed
qed

lemma find_distinct_id:
  assumes "distinct (map lead_id ls)" and "l \<in> set ls"
  shows "find (\<lambda>x. lead_id x = lead_id l) ls = Some l"
  using assms by (induction ls) (auto simp add: image_iff)


subsection \<open>A single sync\<close>

text \<open>
  C1, as the specification has it: a second \<open>syncOne\<close> for an identifier that is
  already in the Sync Attempt Set fails fast with AlreadyInFlight and does not reach the
  gateway, so that of two overlapping calls exactly one reaches it. The handler has no
  such check. With \<open>L1\<close> in flight, a second call for \<open>L1\<close> is suspended at the
  gateway like the first: the gateway has been called twice for \<open>L1\<close> and no notice
  has been shown.
\<close>

theorem syncOne_in_flight_counterexample:
  "''L1'' \<in> syncingLeads inFlightL1 \<and>
   snd (handleSyncLead_enter ''L1'' inFlightL1) \<and>
   gatewayCalls (events (fst (handleSyncLead_enter ''L1'' inFlightL1))) = [''L1'', ''L1''] \<and>
   notices (events (fst (handleSyncLead_enter ''L1'' inFlightL1))) = []"
  by (simp add: inFlightL1_def threeLeads_def handleSyncLead_enter_def)

text \<open>
  C1, amended: \<open>syncOne\<close> makes no in-flight check. Whenever the gateway is
  configured, a call for an identifier that is already in the Sync Attempt Set goes on
  to the gateway, as the first one did; the call that runs to its end has called the
  gateway once more.
\<close>

theorem syncOne_in_flight_proceeds:
  assumes "isConfigured s" and "leadId \<in> syncingLeads s"
  shows "snd (handleSyncLead_enter leadId s) \<and>
     events (fst (handleSyncLead_enter leadId s)) = events s @ [SyncLeadToHubSpot leadId] \<and>
     gatewayCalls (events (handleSyncLead gw leadId s)) = gatewayCalls (events s) @ [leadId]"
  using assms
  by (simp add: handleSyncLead_enter_def handleSyncLead_configured gatewayCalls_append
      gatewayCalls_resultNotice)

theorem syncOne_in_flight_proceeds_witness:
  "isConfigured inFlightL1 \<and> ''L1'' \<in> syncingLeads inFlightL1 \<and>
   snd (handleSyncLead_enter ''L1'' inFlightL1) \<and>
   events (fst (handleSyncLead_enter ''L1'' inFlightL1)) =
     [SyncLeadToHubSpot ''L1'', SyncLeadToHubSpot ''L1''] \<and>
   gatewayCalls (events (handleSyncLead (outcomeOnly failOnL2) ''L1'' inFlightL1)) =
     [''L1'', ''L1'']"
proof -
  have c: "isConfigured inFlightL1"
    by (simp add: inFlightL1_def threeLeads_def handleSyncLead_enter_def)
  have m: "''L1'' \<in> syncingLeads inFlightL1"
    by (simp add: inFlightL1_def threeLeads_def handleSyncLead_enter_def)
  have e: "events inFlightL1 = [SyncLeadToHubSpot ''L1'']"
    by (simp add: inFlightL1_def threeLeads_def handleSyncLead_enter_def)
  show ?thesis
    using syncOne_in_flight_proceeds [OF c m, of "outcomeOnly failOnL2"] c m e
    by simp
qed

text \<open>
  C2: whatever the gateway call gives (success, a failure result or a thrown
  exception), the identifier is not in the Sync Attempt Set when \<open>syncOne\<close> returns.
  The gateway is arbitrary here, so every outcome and every effect on the lead
  collection is covered; the second part is the resumed half alone, for any outcome
  and whatever the screen has become while the call was suspended.
\<close>

theorem syncOne_clears_in_flight:
  assumes "isConfigured s"
  shows "leadId \<notin> syncingLeads (handleSyncLead gw leadId s) \<and>
     leadId \<notin> syncingLeads (handleSyncLead_resume leadId out s')"
  using assms
  by (simp add: handleSyncLead_configured handleSyncLead_resume_def)

theorem syncOne_clears_in_flight_witness:
  "isConfigured threeLeads \<and>
   ''L2'' \<notin> syncingLeads (handleSyncLead (\<lambda>leadId ls. (ThrewError ''timeout'', ls)) ''L2'' threeLeads) \<and>
   ''L2'' \<notin> syncingLeads
      (handleSyncLead_resume ''L2'' (Resolved False) (fst (handleSyncLead_enter ''L2'' threeLeads)))"
proof -
  have c: "isConfigured threeLeads"
    by (simp add: threeLeads_def)
  show ?thesis
    using syncOne_clears_in_flight
      [OF c, of "''L2''" "\<lambda>leadId ls. (ThrewError ''timeout'', ls)" "Resolved False"
        "fst (handleSyncLead_enter ''L2'' threeLeads)"] c
    by simp
qed

text \<open>
  C6: when the gateway is not configured, \<open>syncOne\<close> only shows the notice that
  HubSpot is not configured and returns: the gateway is not called, the lead collection
  and the Sync Attempt Set are as before, and the call is never suspended.
\<close>

theorem syncOne_not_configured:
  assumes "\<not> isConfigured s"
  shows "handleSyncLead gw leadId s = s\<lparr>events := events s @ [Alert ''Error'' notConfiguredMessage]\<rparr> \<and>
     gatewayCalls (events (handleSyncLead gw leadId s)) = gatewayCalls (events s) \<and>
     leads (handleSyncLead gw leadId s) = leads s \<and>
     syncingLeads (handleSyncLead gw leadId s) = syncingLeads s \<and>
     handleSyncLead_enter leadId s = (handleSyncLead gw leadId s, False)"
  using assms
  by (simp add: handleSyncLead_not_configured handleSyncLead_enter_def alert_def gatewayCalls_append)

theorem syncOne_not_configured_witness:
  "\<not> isConfigured (threeLeads\<lparr>isConfigured := False\<rparr>) \<and>
   handleSyncLead (outcomeOnly failOnL2) ''L9'' (threeLeads\<lparr>isConfigured := False\<rparr>) =
     threeLeads\<lparr>isConfigured := False, events := [Alert ''Error'' notConfiguredMessage]\<rparr> \<and>
   ''L9'' \<notin> syncingLeads
      (handleSyncLead (outcomeOnly failOnL2) ''L9'' (threeLeads\<lparr>isConfigured := False\<rparr>))"
proof -
  have c: "\<not> isConfigured (threeLeads\<lparr>isConfigured := False\<rparr>)"
    by simp
  show ?thesis
    using syncOne_not_configured [OF c, of "outcomeOnly failOnL2" "''L9''"]
    by (simp add: threeLeads_def)
qed

subsection \<open>The bulk sync\<close>

text \<open>
  C8: once the two preconditions hold, \<open>syncAll\<close> only shows the confirmation dialog
  and returns with the batch pending. Unless the user presses Sync All, the whole
  action leaves the screen as it was apart from the dialog shown: no gateway call, no
  insertion into the Sync Attempt Set, the lead collection untouched.
\<close>

theorem syncAll_needs_confirmation:
  assumes "isConfigured s" and "leads s \<noteq> []" and "b \<noteq> SyncAll"
  shows "handleSyncAllLeads s =
       (s\<lparr>events := events s @
            [AlertButtons ''Sync All Leads'' (confirmMessage (leads s)) [''Cancel'', ''Sync All'']]\<rparr>,
        Some (leads s)) \<and>
     syncAllFlow gw b s = fst (handleSyncAllLeads s) \<and>
     gatewayCalls (events (syncAllFlow gw b s)) = gatewayCalls (events s) \<and>
     syncingLeads (syncAllFlow gw b s) = syncingLeads s \<and>
     leads (syncAllFlow gw b s) = leads s"
proof -
  have b: "b = Cancel"
    using assms(3) by (cases b) simp_all
  show ?thesis
    using assms(1,2) b
    by (simp add: syncAllFlow_def pressButton_def handleSyncAllLeads_prompt gatewayCalls_append)
qed

theorem syncAll_needs_confirmation_witness:
  "isConfigured threeLeads \<and> leads threeLeads \<noteq> [] \<and> Cancel \<noteq> SyncAll \<and>
   syncAllFlow (outcomeOnly failOnL2) Cancel threeLeads =
     threeLeads\<lparr>events :=
       [AlertButtons ''Sync All Leads'' ''This will sync 3 leads to HubSpot. Continue?''
          [''Cancel'', ''Sync All'']]\<rparr> \<and>
   gatewayCalls (events (syncAllFlow (outcomeOnly failOnL2) Cancel threeLeads)) = []"
proof -
  have c: "isConfigured threeLeads" and n: "leads threeLeads \<noteq> []"
    by (simp_all add: threeLeads_def)
  have d: "Cancel \<noteq> SyncAll"
    by simp
  have m: "confirmMessage (leads threeLeads) = ''This will sync 3 leads to HubSpot. Continue?''"
    by (simp add: confirmMessage_def threeLeads_def toString.simps)
  show ?thesis
    using syncAll_needs_confirmation [OF c n d, of "outcomeOnly failOnL2"] c n m
    by (simp add: threeLeads_def)
qed



text \<open>
  C5, with the gateway of the specification: whatever the set of leads on which the
  write fails, by an error result or by a thrown exception, every lead of the batch is
  passed to the gateway, in order; in the collection left behind, a lead whose write
  succeeded has \<open>syncedToHubSpot\<close> set and a lead whose write failed is as it was, so
  a flag that was false is still false.
\<close>

theorem syncAll_partial_failure:
  assumes "isConfigured s" and "leads s \<noteq> []"
  shows "gatewayCalls (events (syncAllFlow (syncLeadToHubSpot_spec write) SyncAll s)) =
       gatewayCalls (events s) @ map lead_id (leads s) \<and>
     leads (syncAllFlow (syncLeadToHubSpot_spec write) SyncAll s) =
       map (\<lambda>l. if write (lead_id l) = Resolved True then l\<lparr>syncedToHubSpot := True\<rparr> else l)
         (leads s) \<and>
     (\<forall>i < length (leads s).
        lead_id (leads (syncAllFlow (syncLeadToHubSpot_spec write) SyncAll s) ! i) =
          lead_id (leads s ! i) \<and>
        (write (lead_id (leads s ! i)) = Resolved True \<longrightarrow>
           syncedToHubSpot (leads (syncAllFlow (syncLeadToHubSpot_spec write) SyncAll s) ! i)) \<and>
        (write (lead_id (leads s ! i)) \<noteq> Resolved True \<longrightarrow>
           syncedToHubSpot (leads (syncAllFlow (syncLeadToHubSpot_spec write) SyncAll s) ! i) =
             syncedToHubSpot (leads s ! i)))"
proof -
  let ?gw = "syncLeadToHubSpot_spec write"
  let ?s1 = "s\<lparr>events := events s @
      [AlertButtons ''Sync All Leads'' (confirmMessage (leads s)) [''Cancel'', ''Sync All'']]\<rparr>"
  have flow: "syncAllFlow ?gw SyncAll s = syncAllOnPress ?gw (leads s) ?s1"
    using assms by (simp add: syncAllFlow_def pressButton_def handleSyncAllLeads_prompt)
  have c1: "isConfigured ?s1"
    using assms(1) by simp
  have calls: "gatewayCalls (events (syncAllFlow ?gw SyncAll s)) =
      gatewayCalls (events s) @ map lead_id (leads s)"
    by (simp add: flow syncAllOnPress_gatewayCalls [OF c1] gatewayCalls_append)
  have "leads (syncAllFlow ?gw SyncAll s) =
      map (\<lambda>l. if lead_id l \<in> lead_id ` set (leads s) \<and> write (lead_id l) = Resolved True
                then l\<lparr>syncedToHubSpot := True\<rparr> else l) (leads s)"
    by (simp add: flow syncAllOnPress_spec_leads [OF c1])
  also have "\<dots> =
      map (\<lambda>l. if write (lead_id l) = Resolved True then l\<lparr>syncedToHubSpot := True\<rparr> else l)
        (leads s)"
    by (rule map_cong) auto
  finally have store: "leads (syncAllFlow ?gw SyncAll s) =
      map (\<lambda>l. if write (lead_id l) = Resolved True then l\<lparr>syncedToHubSpot := True\<rparr> else l)
        (leads s)" .
  show ?thesis
    using calls store by simp
qed

theorem syncAll_partial_failure_witness:
  "isConfigured threeLeads \<and> leads threeLeads \<noteq> [] \<and>
   gatewayCalls (events (syncAllFlow (syncLeadToHubSpot_spec failOnL2) SyncAll threeLeads)) =
     [''L1'', ''L2'', ''L3''] \<and>
   leads (syncAllFlow (syncLeadToHubSpot_spec failOnL2) SyncAll threeLeads) =
     [\<lparr>lead_id = ''L1'', syncedToHubSpot = True\<rparr>,
      \<lparr>lead_id = ''L2'', syncedToHubSpot = False\<rparr>,
      \<lparr>lead_id = ''L3'', syncedToHubSpot = True\<rparr>]"
proof -
  have c: "isConfigured threeLeads" and n: "leads threeLeads \<noteq> []"
    by (simp_all add: threeLeads_def)
  show ?thesis
    using syncAll_partial_failure [OF c n, of failOnL2] c n
    by (simp add: threeLeads_def failOnL2_def)
qed

text \<open>
  C3, as the specification has it: \<open>syncAll\<close> returns a report with the numbers of
  attempted, succeeded and failed leads and the list of failures, which for \<open>L1\<close>,
  \<open>L2\<close>, \<open>L3\<close> with a write failing on \<open>L2\<close> is 3, 2, 1 and \<open>L2\<close>. The handler
  returns no report. On that batch it returns as soon as the dialog is shown, with the
  batch pending: no lead has been attempted and no flag is set. After Sync All all that
  is produced is one notice per lead, and no notice names a lead.
\<close>

theorem syncAll_report_counterexample:
  "handleSyncAllLeads threeLeads =
     (threeLeads\<lparr>events :=
        [AlertButtons ''Sync All Leads'' ''This will sync 3 leads to HubSpot. Continue?''
           [''Cancel'', ''Sync All'']]\<rparr>,
      Some (leads threeLeads)) \<and>
   length (gatewayCalls (events (fst (handleSyncAllLeads threeLeads)))) \<noteq> 3 \<and>
   events (syncAllFlow (outcomeOnly failOnL2) SyncAll threeLeads) =
     [AlertButtons ''Sync All Leads'' ''This will sync 3 leads to HubSpot. Continue?''
        [''Cancel'', ''Sync All''],
      SyncLeadToHubSpot ''L1'', Alert ''Success'' ''Lead synced to HubSpot successfully'',
      SyncLeadToHubSpot ''L2'', Alert ''Error'' ''Failed to sync lead to HubSpot'',
      SyncLeadToHubSpot ''L3'', Alert ''Success'' ''Lead synced to HubSpot successfully'']"
  by (simp add: handleSyncAllLeads_def syncAllFlow_def pressButton_def threeLeads_def
      confirmMessage_def toString.simps handleSyncLead_def handleSyncLead_enter_def
      handleSyncLead_resume_def outcomeOnly_def failOnL2_def resultNotice_def
      setSynced_def)

text \<open>
  C3, amended: \<open>syncAll\<close> returns no report. It returns with no lead attempted, and
  after the confirmation the outcome of the batch is surfaced as one notice per lead,
  in the order of the leads: the success notice for a lead whose gateway call gave
  true, an error notice for any other outcome. For three leads of which only the second
  fails these are a success, an error and a success notice.
\<close>

theorem syncAll_notices:
  assumes "isConfigured s" and "leads s \<noteq> []"
    and "\<forall>leadId ls. fst (gw leadId ls) = write leadId"
  shows "gatewayCalls (events (fst (handleSyncAllLeads s))) = gatewayCalls (events s) \<and>
     notices (events (syncAllFlow gw SyncAll s)) =
       notices (events s) @ map (\<lambda>l. resultNotice (write (lead_id l))) (leads s)"
proof -
  let ?s1 = "s\<lparr>events := events s @
      [AlertButtons ''Sync All Leads'' (confirmMessage (leads s)) [''Cancel'', ''Sync All'']]\<rparr>"
  have flow: "syncAllFlow gw SyncAll s = syncAllOnPress gw (leads s) ?s1"
    using assms(1,2) by (simp add: syncAllFlow_def pressButton_def handleSyncAllLeads_prompt)
  have c1: "isConfigured ?s1"
    using assms(1) by simp
  have w: "\<And>leadId ls. fst (gw leadId ls) = write leadId"
    using assms(3) by simp
  have "notices (events (syncAllOnPress gw (leads s) ?s1)) =
      notices (events ?s1) @ map (\<lambda>l. resultNotice (write (lead_id l))) (leads s)"
    by (rule syncAllOnPress_notices [OF c1 w])
  then show ?thesis
    using assms(1,2) flow
    by (simp add: handleSyncAllLeads_prompt gatewayCalls_append notices_append)
qed

theorem syncAll_notices_witness:
  "isConfigured threeLeads \<and> leads threeLeads \<noteq> [] \<and>
   (\<forall>leadId ls. fst (outcomeOnly failOnL2 leadId ls) = failOnL2 leadId) \<and>
   gatewayCalls (events (fst (handleSyncAllLeads threeLeads))) = [] \<and>
   notices (events (syncAllFlow (outcomeOnly failOnL2) SyncAll threeLeads)) =
     [Alert ''Success'' ''Lead synced to HubSpot successfully'',
      Alert ''Error'' ''Failed to sync lead to HubSpot'',
      Alert ''Success'' ''Lead synced to HubSpot successfully'']"
proof -
  have c: "isConfigured threeLeads" and n: "leads threeLeads \<noteq> []"
    by (simp_all add: threeLeads_def)
  have w: "\<forall>leadId ls. fst (outcomeOnly failOnL2 leadId ls) = failOnL2 leadId"
    by (simp add: outcomeOnly_def)
  show ?thesis
    using syncAll_notices [OF c n w] c n w
    by (simp add: threeLeads_def failOnL2_def resultNotice_def)
qed

subsection \<open>Preconditions\<close>

text \<open>
  C7: a query that is blank after trimming is rejected with the notice of an invalid
  query, and \<open>searchLeads\<close> is not called. For an empty lead collection \<open>syncAll\<close>
  shows no dialog, leaves no batch pending and never calls the gateway; where the
  empty batch is the precondition that is violated, the gateway being configured, the
  rejection is the notice of the empty batch and nothing else changes.
\<close>

theorem preconditions_rejected:
  "(trim (searchQuery s) = [] \<longrightarrow>
      handleSearch searchLeads s =
        s\<lparr>events := events s @ [Alert ''Error'' ''Please enter a search query'']\<rparr>) \<and>
   (leads s = [] \<longrightarrow>
      snd (handleSyncAllLeads s) = None \<and>
      gatewayCalls (events (syncAllFlow gw b s)) = gatewayCalls (events s) \<and>
      syncingLeads (syncAllFlow gw b s) = syncingLeads s \<and>
      leads (syncAllFlow gw b s) = leads s) \<and>
   (isConfigured s \<and> leads s = [] \<longrightarrow>
      syncAllFlow gw b s = s\<lparr>events := events s @ [Alert ''Error'' ''No leads to sync'']\<rparr>)"
  by (simp add: handleSearch_def handleSyncAllLeads_def syncAllFlow_def alert_def
      gatewayCalls_append)

theorem preconditions_rejected_witness:
  "trim (searchQuery emptyUnconfigured) = [] \<and>
   isConfigured (emptyUnconfigured\<lparr>isConfigured := True\<rparr>) \<and>
   leads (emptyUnconfigured\<lparr>isConfigured := True\<rparr>) = [] \<and>
   handleSearch (\<lambda>q ls. leads threeLeads) emptyUnconfigured =
     emptyUnconfigured\<lparr>events := [Alert ''Error'' ''Please enter a search query'']\<rparr> \<and>
   syncAllFlow (outcomeOnly failOnL2) SyncAll (emptyUnconfigured\<lparr>isConfigured := True\<rparr>) =
     emptyUnconfigured\<lparr>isConfigured := True, events := [Alert ''Error'' ''No leads to sync'']\<rparr> \<and>
   gatewayCalls
     (events (syncAllFlow (outcomeOnly failOnL2) SyncAll (emptyUnconfigured\<lparr>isConfigured := True\<rparr>))) = []"
proof -
  let ?s = "emptyUnconfigured\<lparr>isConfigured := True\<rparr>"
  have q: "trim (searchQuery emptyUnconfigured) = []"
    by (simp add: emptyUnconfigured_def trim_def isWhiteSpace_def)
  have c: "isConfigured ?s"
    by simp
  have e: "leads ?s = []"
    by (simp add: emptyUnconfigured_def)
  have ev: "events emptyUnconfigured = []"
    by (simp add: emptyUnconfigured_def)
  have h: "handleSearch (\<lambda>q ls. leads threeLeads) emptyUnconfigured =
      emptyUnconfigured\<lparr>events := [Alert ''Error'' ''Please enter a search query'']\<rparr>"
    using preconditions_rejected [of emptyUnconfigured "\<lambda>q ls. leads threeLeads"
        "outcomeOnly failOnL2" SyncAll] q ev
    by simp
  have f: "syncAllFlow (outcomeOnly failOnL2) SyncAll ?s =
      ?s\<lparr>events := [Alert ''Error'' ''No leads to sync'']\<rparr>"
    and g: "gatewayCalls (events (syncAllFlow (outcomeOnly failOnL2) SyncAll ?s)) = []"
    using preconditions_rejected [of ?s "\<lambda>q ls. leads threeLeads"
        "outcomeOnly failOnL2" SyncAll] c e ev
    by simp_all
  show ?thesis
    using q c e h f g by simp
qed

subsection \<open>What each lead shows\<close>

text \<open>
  C9: the icon of an identifier that is in the Sync Attempt Set is the activity
  indicator, whatever the flag of the lead; and in a collection whose identifiers are
  distinct, the icon of a lead that is not in flight is the check mark if the lead is
  synced and the sync prompt if it is not.
\<close>

theorem getSyncStatusIcon_precedence:
  "(leadId \<in> syncingLeads s \<longrightarrow> getSyncStatusIcon s leadId = ActivityIndicator) \<and>
   (distinct (map lead_id (leads s)) \<and> l \<in> set (leads s) \<and> lead_id l \<notin> syncingLeads s \<longrightarrow>
      (getSyncStatusIcon s (lead_id l) = CheckCircle \<longleftrightarrow> syncedToHubSpot l) \<and>
      (getSyncStatusIcon s (lead_id l) = Zap \<longleftrightarrow> \<not> syncedToHubSpot l))"
proof -
  have "getSyncStatusIcon s (lead_id l) = (if syncedToHubSpot l then CheckCircle else Zap)"
    if "distinct (map lead_id (leads s))" and "l \<in> set (leads s)"
      and "lead_id l \<notin> syncingLeads s"
    using find_distinct_id [OF that(1,2)] that(3) by (simp add: getSyncStatusIcon_def)
  then show ?thesis
    by (simp add: getSyncStatusIcon_def)
qed

theorem getSyncStatusIcon_precedence_witness:
  "''L1'' \<in> syncingLeads (inFlightL1\<lparr>leads := setSynced ''L1'' (setSynced ''L2'' (leads inFlightL1))\<rparr>) \<and>
   distinct (map lead_id (leads (inFlightL1\<lparr>leads := setSynced ''L1'' (setSynced ''L2'' (leads inFlightL1))\<rparr>))) \<and>
   getSyncStatusIcon (inFlightL1\<lparr>leads := setSynced ''L1'' (setSynced ''L2'' (leads inFlightL1))\<rparr>) ''L1'' =
     ActivityIndicator \<and>
   getSyncStatusIcon (inFlightL1\<lparr>leads := setSynced ''L1'' (setSynced ''L2'' (leads inFlightL1))\<rparr>) ''L2'' =
     CheckCircle \<and>
   getSyncStatusIcon (inFlightL1\<lparr>leads := setSynced ''L1'' (setSynced ''L2'' (leads inFlightL1))\<rparr>) ''L3'' =
     Zap"
proof -
  let ?s = "inFlightL1\<lparr>leads := setSynced ''L1'' (setSynced ''L2'' (leads inFlightL1))\<rparr>"
  have ls: "leads ?s =
      [\<lparr>lead_id = ''L1'', syncedToHubSpot = True\<rparr>,
       \<lparr>lead_id = ''L2'', syncedToHubSpot = True\<rparr>,
       \<lparr>lead_id = ''L3'', syncedToHubSpot = False\<rparr>]"
    by (simp add: inFlightL1_def threeLeads_def handleSyncLead_enter_def setSynced_def)
  have sy: "syncingLeads ?s = {''L1''}"
    by (simp add: inFlightL1_def threeLeads_def handleSyncLead_enter_def)
  have d: "distinct (map lead_id (leads ?s))"
    by (simp add: ls)
  show ?thesis
    using getSyncStatusIcon_precedence
        [of "''L1''" ?s "\<lparr>lead_id = ''L2'', syncedToHubSpot = True\<rparr>"]
      getSyncStatusIcon_precedence
        [of "''L1''" ?s "\<lparr>lead_id = ''L3'', syncedToHubSpot = False\<rparr>"]
      d sy ls
    by simp
qed




end
